theory Spec2Isabelle
  imports Main "HOL-Library.Sublist"
begin

section \<open>The Doc Up request handler (server/plugin.go)\<close>

text \<open>
  The plugin serves one HTTP path. \<^verbatim>\<open>handleCreate\<close> checks the caller, decodes the
  payload, resolves the target repository, reads the user and the source post from the
  host, creates an issue on the tracker and posts a confirmation into the thread.

  The handler is a straight line of calls to collaborators. The model makes the calls
  visible: a run of the handler yields the list of calls it made, in order, and how the
  HTTP exchange ended. What a collaborator answers is a parameter of the model.
\<close>

subsection \<open>Data\<close>

text \<open>The payload, \<^verbatim>\<open>type CreateAPIRequest struct\<close> (lines 61-66).\<close>

record CreateAPIRequest =
  Type :: string
  Title :: string
  Body :: string
  PostID :: string

text \<open>
  The plugin configuration. Its declaration is in \<^verbatim>\<open>configuration.go\<close>; these are the
  fields that \<^verbatim>\<open>plugin.go\<close> reads.
\<close>

record configuration =
  GitHubAPIKey :: string
  AdminRepository :: string
  DeveloperRepository :: string
  HandbookRepository :: string
  Labels :: string

text \<open>
  The host's types, as far as the handler touches them: \<^verbatim>\<open>model.User\<close>,
  \<^verbatim>\<open>model.Post\<close> and \<^verbatim>\<open>model.Config\<close>. \<^verbatim>\<open>SiteURL\<close> is a \<^verbatim>\<open>*string\<close>:
  \<open>None\<close> is the nil pointer.
\<close>

record User =
  Username :: string

record Post =
  Id :: string
  UserId :: string
  ChannelId :: string
  RootId :: string
  Message :: string

record ServiceSettings =
  SiteURL :: "string option"

record Config =
  ServiceSettings :: ServiceSettings

text \<open>
  The tracker's types: \<^verbatim>\<open>github.IssueRequest\<close> with the three fields the handler sets
  (named \<open>Issue...\<close> here, \<open>Title\<close> and \<open>Body\<close> being taken by the payload), and
  \<^verbatim>\<open>github.Issue\<close> with its nil-safe getter.
\<close>

record IssueRequest =
  IssueTitle :: string
  IssueBody :: string
  IssueLabels :: "string list"

record Issue =
  HTMLURL :: "string option"

definition GetHTMLURL :: "Issue \<Rightarrow> string" where
  "GetHTMLURL i = (case HTMLURL i of None \<Rightarrow> [] | Some u \<Rightarrow> u)"

text \<open>\<^verbatim>\<open>url.URL\<close>: the handler reads and writes \<^verbatim>\<open>Path\<close> only.\<close>

record URL =
  Scheme :: string
  Host :: string
  Path :: string
  RawQuery :: string
  Fragment :: string

subsection \<open>Collaborators\<close>

text \<open>
  An error is the text its \<^verbatim>\<open>Error()\<close> method returns, the only thing the handler
  asks of it. A call that returns \<^verbatim>\<open>(value, err)\<close> is a sum: \<open>Inl\<close> the error.

  The standard library: \<^verbatim>\<open>json.Decoder.Decode\<close> into a \<^verbatim>\<open>*CreateAPIRequest\<close>
  (the JSON text \<^verbatim>\<open>null\<close> decodes without error and leaves the pointer nil, which is
  \<open>Inr None\<close>), \<^verbatim>\<open>url.Parse\<close> (a nil URL comes with every error), \<^verbatim>\<open>path.Join\<close>
  and \<^verbatim>\<open>URL.String\<close>.
\<close>

record golib =
  json_Decode :: "string \<Rightarrow> string + CreateAPIRequest option"
  url_Parse :: "string \<Rightarrow> string + URL"
  path_Join :: "string list \<Rightarrow> string"
  url_String :: "URL \<Rightarrow> string"

text \<open>The host API, \<^verbatim>\<open>p.API\<close>.\<close>

record host_API =
  api_GetUser :: "string \<Rightarrow> string + User"
  api_GetConfig :: Config
  api_GetPost :: "string \<Rightarrow> string + Post"
  api_CreatePost :: "Post \<Rightarrow> string + Post"

text \<open>
  \<^verbatim>\<open>type Plugin struct\<close> (lines 21-32) of an activated plugin: the host API, the active
  configuration, and the tracker client, of which the handler calls
  \<^verbatim>\<open>Issues.Create\<close> with an owner, a repository and a request.
\<close>

record Plugin =
  API :: host_API
  configuration :: configuration
  github_Issues_Create :: "string \<Rightarrow> string \<Rightarrow> IssueRequest \<Rightarrow> string + Issue"

text \<open>
  Of the HTTP request the handler reads the \<^verbatim>\<open>Mattermost-User-ID\<close> header
  (\<^verbatim>\<open>Header.Get\<close> gives the empty string when the header is absent) and the body.
\<close>

record request =
  header_user_id :: string
  body :: string

subsection \<open>Calls and outcomes\<close>

text \<open>
  The calls a run makes, in the order it makes them: \<^verbatim>\<open>p.API.LogError\<close>,
  \<^verbatim>\<open>p.getConfiguration\<close>, \<^verbatim>\<open>p.API.GetUser\<close>, \<^verbatim>\<open>p.API.GetConfig\<close>,
  \<^verbatim>\<open>p.API.GetPost\<close>, \<^verbatim>\<open>p.github.Issues.Create\<close> and \<^verbatim>\<open>p.API.CreatePost\<close>.
\<close>

datatype event =
    LogError string
  | GetConfiguration
  | GetUser string
  | GetConfig
  | GetPost string
  | IssuesCreate string string IssueRequest
  | CreatePost Post

text \<open>
  The exchange ends with a status and a body, or the handler panics on a nil pointer.
  A handler that returns without writing anything has answered 200 with an empty body.
\<close>

datatype outcome = Responded nat string | Panic

text \<open>The name of the function a call goes to, whatever its arguments.\<close>

fun call_name :: "event \<Rightarrow> string" where
  "call_name (LogError m) = ''LogError''"
| "call_name GetConfiguration = ''getConfiguration''"
| "call_name (GetUser i) = ''GetUser''"
| "call_name GetConfig = ''GetConfig''"
| "call_name (GetPost i) = ''GetPost''"
| "call_name (IssuesCreate owner repo q) = ''Issues.Create''"
| "call_name (CreatePost post) = ''CreatePost''"

subsection \<open>Library functions with a fixed meaning\<close>

text \<open>
  \<^verbatim>\<open>strings.Split(s, sep)\<close> for a separator of one byte: the pieces of \<open>s\<close> between
  the occurrences of the separator. The empty string has one piece, itself.
\<close>

fun strings_Split :: "string \<Rightarrow> char \<Rightarrow> string list" where
  "strings_Split [] sep = [[]]"
| "strings_Split (c # cs) sep =
     (if c = sep then [] # strings_Split cs sep
      else (case strings_Split cs sep of
              [] \<Rightarrow> [[c]]
            | piece # pieces \<Rightarrow> (c # piece) # pieces))"

text \<open>
  \<^verbatim>\<open>fmt.Sprintf\<close> for the verb \<^verbatim>\<open>%s\<close> with string operands, the only verb in the
  handler's formats: each \<^verbatim>\<open>%s\<close> is replaced by the next operand, byte for byte, and
  the operand is not scanned again. A verb without an operand prints \<^verbatim>\<open>%!s(MISSING)\<close>.
  Both formats of the handler have as many verbs as operands and no other \<^verbatim>\<open>%\<close>, so
  what Go prints for surplus operands or for a lone \<^verbatim>\<open>%\<close> is left out.
\<close>

fun Sprintf :: "string \<Rightarrow> string list \<Rightarrow> string" where
  "Sprintf [] args = []"
| "Sprintf [c] args = [c]"
| "Sprintf (c # d # fs) args =
     (if c = CHR ''%'' \<and> d = CHR ''s''
      then (case args of
              [] \<Rightarrow> ''%!s(MISSING)'' @ Sprintf fs []
            | a # rest \<Rightarrow> a @ Sprintf fs rest)
      else c # Sprintf (d # fs) args)"

subsection \<open>The handler\<close>

text \<open>Lines 86-94: the \<^verbatim>\<open>switch\<close> on the request type; no case matching leaves \<open>''''\<close>.\<close>

definition ownerAndRepo_of :: "configuration \<Rightarrow> string \<Rightarrow> string" where
  "ownerAndRepo_of config ty =
     (if ty = ''admin'' then AdminRepository config
      else if ty = ''developer'' then DeveloperRepository config
      else if ty = ''handbook'' then HandbookRepository config
      else [])"

text \<open>Lines 111-114.\<close>

definition labels_of :: "configuration \<Rightarrow> string list" where
  "labels_of config =
     (if Labels config \<noteq> [] then strings_Split (Labels config) CHR '','' else [])"

text \<open>Lines 132-135.\<close>

definition rootID_of :: "Post \<Rightarrow> string" where
  "rootID_of docPost = (if RootId docPost = [] then Id docPost else RootId docPost)"

text \<open>Line 140, the format of the issue body, and line 165, that of the confirmation.\<close>

definition body_format :: string where
  "body_format = ''Mattermost user `%s` from %s has requested the following be documented:\<newline>\<newline>```\<newline>%s\<newline>```\<newline>\<newline>See the original post [here](%s).\<newline>\<newline>_This issue was generated from [Mattermost](https://mattermost.com) using the [Doc Up](https://github.com/jwilander/mattermost-plugin-docup) plugin._''"

definition message_format :: string where
  "message_format = ''Marked [this post](%s) for documentation [here](%s).\<newline>\<newline>_Generated by the [Doc Up](https://github.com/jwilander/mattermost-plugin-docup) plugin._''"

text \<open>
  \<^verbatim>\<open>func (p *Plugin) handleCreate\<close> (lines 68-174). The result is the list of calls made
  and the outcome. The three nil dereferences are branches of their own: the decoded
  request at line 87, \<^verbatim>\<open>*serverConfig.ServiceSettings.SiteURL\<close> at line 137, and
  \<^verbatim>\<open>permalink.Path\<close> at line 138, where \<^verbatim>\<open>permalink\<close> is nil after a parse error
  that line 137 does not look at.
\<close>

definition handleCreate :: "golib \<Rightarrow> Plugin \<Rightarrow> request \<Rightarrow> event list \<times> outcome" where
  "handleCreate L p r =
    (let userID = header_user_id r in
     if userID = [] then ([], Responded 401 ''Not authorized\<newline>'')
     else
       case json_Decode L (body r) of
         Inl err \<Rightarrow> ([LogError (''Unable to decode JSON err='' @ err)], Responded 500 [])
       | Inr None \<Rightarrow> ([GetConfiguration], Panic)
       | Inr (Some createRequest) \<Rightarrow>
    (let config = configuration p;
         ownerAndRepo = ownerAndRepo_of config (Type createRequest) in
     if ownerAndRepo = [] then ([GetConfiguration], Responded 400 [])
     else
    (let repoSplit = strings_Split ownerAndRepo CHR ''/'' in
     if length repoSplit \<noteq> 2
     then ([GetConfiguration, LogError (''Bad configured repo: '' @ ownerAndRepo)],
           Responded 500 [])
     else
    (let owner = repoSplit ! 0;
         repo = repoSplit ! 1;
         labels = labels_of config in
     case api_GetUser (API p) userID of
       Inl appErr \<Rightarrow>
         ([GetConfiguration, GetUser userID, LogError (''Unable to get user err='' @ appErr)],
          Responded 500 [])
     | Inr user \<Rightarrow>
    (let serverConfig = api_GetConfig (API p) in
     case api_GetPost (API p) (PostID createRequest) of
       Inl appErr \<Rightarrow>
         ([GetConfiguration, GetUser userID, GetConfig, GetPost (PostID createRequest),
           LogError (''Unable to get post err='' @ appErr)],
          Responded 500 [])
     | Inr docPost \<Rightarrow>
    (let rootID = rootID_of docPost;
         reads = [GetConfiguration, GetUser userID, GetConfig, GetPost (PostID createRequest)] in
     case SiteURL (ServiceSettings serverConfig) of
       None \<Rightarrow> (reads, Panic)
     | Some siteURL \<Rightarrow>
    (case url_Parse L siteURL of
       Inl err \<Rightarrow> (reads, Panic)
     | Inr parsed \<Rightarrow>
    (let permalink = parsed\<lparr>Path := path_Join L [Path parsed, ''_redirect'', ''pl'', Id docPost]\<rparr>;
         body = Sprintf body_format
                  [Username user, siteURL, Body createRequest, url_String L permalink];
         issueRequest = \<lparr>IssueTitle = ''Request for Documentation: '' @ Title createRequest,
                         IssueBody = body,
                         IssueLabels = labels\<rparr> in
     case github_Issues_Create p owner repo issueRequest of
       Inl err \<Rightarrow>
         (reads @ [IssuesCreate owner repo issueRequest,
                   LogError (''Error creating GitHub issue err='' @ err)],
          Responded 500 [])
     | Inr issue \<Rightarrow>
    (let post = \<lparr>Id = [], UserId = userID, ChannelId = ChannelId docPost, RootId = rootID,
                 Message = Sprintf message_format [url_String L permalink, GetHTMLURL issue]\<rparr> in
     case api_CreatePost (API p) post of
       Inl appErr \<Rightarrow>
         (reads @ [IssuesCreate owner repo issueRequest, CreatePost post,
                   LogError (''Unable to create post err='' @ appErr)],
          Responded 500 [])
     | Inr created \<Rightarrow>
         (reads @ [IssuesCreate owner repo issueRequest, CreatePost post],
          Responded 200 []))))))))))"

subsection \<open>A concrete deployment\<close>

text \<open>
  One deployment to run the handler on: the developer repository is \<^verbatim>\<open>org/repo\<close>, the
  handbook repository lacks its slash, the admin repository is not set; the site is
  \<^verbatim>\<open>https://chat.example.com\<close>; user \<^verbatim>\<open>U1\<close> and the posts \<^verbatim>\<open>M1\<close> (no parent) and
  \<^verbatim>\<open>M7\<close> (a reply to \<^verbatim>\<open>M1\<close>) exist. The library functions are given on the
  inputs these runs reach, with the values Go returns there.
\<close>

definition scenario_body :: string where
  \<open>scenario_body = ''{"type":"developer","title":"T","body":"B","post_id":"M1"}''\<close>

definition admin_body :: string where
  \<open>admin_body = ''{"type":"admin","title":"T","body":"B","post_id":"M1"}''\<close>

definition handbook_body :: string where
  \<open>handbook_body = ''{"type":"handbook","title":"T","body":"B","post_id":"M1"}''\<close>

definition marketing_body :: string where
  \<open>marketing_body = ''{"type":"marketing","title":"T","body":"B","post_id":"M1"}''\<close>

definition reply_body :: string where
  \<open>reply_body = ''{"type":"developer","title":"T","body":"B","post_id":"M7"}''\<close>

definition scenario_createRequest :: CreateAPIRequest where
  "scenario_createRequest =
     \<lparr>Type = ''developer'', Title = ''T'', Body = ''B'', PostID = ''M1''\<rparr>"

definition scenario_url :: URL where
  "scenario_url =
     \<lparr>Scheme = ''https'', Host = ''chat.example.com'', Path = [], RawQuery = [], Fragment = []\<rparr>"

definition scenario_lib :: golib where
  "scenario_lib =
     \<lparr>json_Decode = (\<lambda>b.
        if b = scenario_body then Inr (Some scenario_createRequest)
        else if b = admin_body then Inr (Some (scenario_createRequest\<lparr>Type := ''admin''\<rparr>))
        else if b = handbook_body then Inr (Some (scenario_createRequest\<lparr>Type := ''handbook''\<rparr>))
        else if b = marketing_body then Inr (Some (scenario_createRequest\<lparr>Type := ''marketing''\<rparr>))
        else if b = reply_body then Inr (Some (scenario_createRequest\<lparr>PostID := ''M7''\<rparr>))
        else if b = ''null'' then Inr None
        else Inl ''unexpected EOF''),
      url_Parse = (\<lambda>s.
        if s = ''https://chat.example.com'' then Inr scenario_url
        else Inl ''parse: missing protocol scheme''),
      path_Join = (\<lambda>elems.
        if elems = [[], ''_redirect'', ''pl'', ''M1''] then ''_redirect/pl/M1''
        else if elems = [[], ''_redirect'', ''pl'', ''M7''] then ''_redirect/pl/M7''
        else []),
      url_String = (\<lambda>u. Scheme u @ ''://'' @ Host u @ ''/'' @ Path u)\<rparr>"

definition scenario_user :: User where
  "scenario_user = \<lparr>Username = ''alice''\<rparr>"

definition scenario_docPost :: Post where
  "scenario_docPost =
     \<lparr>Id = ''M1'', UserId = ''U2'', ChannelId = ''CH1'', RootId = [], Message = ''how?''\<rparr>"

definition scenario_reply :: Post where
  "scenario_reply =
     \<lparr>Id = ''M7'', UserId = ''U3'', ChannelId = ''CH1'', RootId = ''M1'', Message = ''so''\<rparr>"

definition scenario_issue :: Issue where
  "scenario_issue = \<lparr>HTMLURL = Some ''https://github.com/org/repo/issues/1''\<rparr>"

definition scenario_config :: configuration where
  "scenario_config =
     \<lparr>GitHubAPIKey = ''token'', AdminRepository = [], DeveloperRepository = ''org/repo'',
      HandbookRepository = ''handbook'', Labels = ''a,b,c''\<rparr>"

definition scenario_API :: host_API where
  "scenario_API =
     \<lparr>api_GetUser = (\<lambda>i. if i = ''U1'' then Inr scenario_user else Inl ''no such user''),
      api_GetConfig = \<lparr>ServiceSettings = \<lparr>SiteURL = Some ''https://chat.example.com''\<rparr>\<rparr>,
      api_GetPost = (\<lambda>i.
        if i = ''M1'' then Inr scenario_docPost
        else if i = ''M7'' then Inr scenario_reply
        else Inl ''no such post''),
      api_CreatePost = (\<lambda>post. Inr (post\<lparr>Id := ''M9''\<rparr>))\<rparr>"

definition scenario_plugin :: Plugin where
  "scenario_plugin =
     \<lparr>API = scenario_API,
      configuration = scenario_config,
      github_Issues_Create = (\<lambda>owner repo req.
        if owner = ''org'' \<and> repo = ''repo'' then Inr scenario_issue
        else Inl ''404 Not Found'')\<rparr>"

definition scenario_request :: request where
  "scenario_request = \<lparr>header_user_id = ''U1'', body = scenario_body\<rparr>"

text \<open>The issue request and the confirmation post of that deployment for \<^verbatim>\<open>M1\<close>.\<close>

definition scenario_issueRequest :: IssueRequest where
  "scenario_issueRequest =
     \<lparr>IssueTitle = ''Request for Documentation: T'',
      IssueBody = ''Mattermost user `alice` from https://chat.example.com has requested the following be documented:\<newline>\<newline>```\<newline>B\<newline>```\<newline>\<newline>See the original post [here](https://chat.example.com/_redirect/pl/M1).\<newline>\<newline>_This issue was generated from [Mattermost](https://mattermost.com) using the [Doc Up](https://github.com/jwilander/mattermost-plugin-docup) plugin._'',
      IssueLabels = [''a'', ''b'', ''c'']\<rparr>"

definition scenario_post :: Post where
  "scenario_post =
     \<lparr>Id = [], UserId = ''U1'', ChannelId = ''CH1'', RootId = ''M1'',
      Message = ''Marked [this post](https://chat.example.com/_redirect/pl/M1) for documentation [here](https://github.com/org/repo/issues/1).\<newline>\<newline>_Generated by the [Doc Up](https://github.com/jwilander/mattermost-plugin-docup) plugin._''\<rparr>"

section \<open>Properties\<close>

subsection \<open>Splitting\<close>

lemma strings_Split_not_Nil: "strings_Split s c \<noteq> []"
  by (induction s) (auto split: list.splits)

lemma length_strings_Split: "length (strings_Split s c) = Suc (count_list s c)"
  by (induction s) (auto split: list.splits simp: strings_Split_not_Nil)

lemma strings_Split_no_sep: "count_list s c = 0 \<Longrightarrow> strings_Split s c = [s]"
  by (induction s) (auto split: if_splits)

lemma strings_Split_one_sep:
  "count_list s c = 1 \<Longrightarrow>
     strings_Split s c = [takeWhile (\<lambda>x. x \<noteq> c) s, tl (dropWhile (\<lambda>x. x \<noteq> c) s)]"
  by (induction s) (auto split: if_splits simp: strings_Split_no_sep)

subsection \<open>The runs of the handler\<close>

text \<open>
  Every run of \<^verbatim>\<open>handleCreate\<close> is one of twelve: one for each \<^verbatim>\<open>return\<close> of the
  source, one for each nil dereference, and the run that reaches the end of the function.
\<close>

lemma handleCreate_cases:
  obtains
    (Unauthorized)
      "header_user_id r = []"
      "handleCreate L p r = ([], Responded 401 ''Not authorized\<newline>'')"
  | (DecodeError) err where
      "header_user_id r \<noteq> []"
      "json_Decode L (body r) = Inl err"
      "handleCreate L p r =
         ([LogError (''Unable to decode JSON err='' @ err)], Responded 500 [])"
  | (NilRequest)
      "header_user_id r \<noteq> []"
      "json_Decode L (body r) = Inr None"
      "handleCreate L p r = ([GetConfiguration], Panic)"
  | (BadRequest) cr where
      "header_user_id r \<noteq> []"
      "json_Decode L (body r) = Inr (Some cr)"
      "ownerAndRepo_of (configuration p) (Type cr) = []"
      "handleCreate L p r = ([GetConfiguration], Responded 400 [])"
  | (BadRepo) cr s where
      "header_user_id r \<noteq> []"
      "json_Decode L (body r) = Inr (Some cr)"
      "ownerAndRepo_of (configuration p) (Type cr) = s"
      "s \<noteq> []"
      "length (strings_Split s CHR ''/'') \<noteq> 2"
      "handleCreate L p r =
         ([GetConfiguration, LogError (''Bad configured repo: '' @ s)], Responded 500 [])"
  | (NoUser) cr s err where
      "header_user_id r \<noteq> []"
      "json_Decode L (body r) = Inr (Some cr)"
      "ownerAndRepo_of (configuration p) (Type cr) = s"
      "s \<noteq> []"
      "length (strings_Split s CHR ''/'') = 2"
      "api_GetUser (API p) (header_user_id r) = Inl err"
      "handleCreate L p r =
         ([GetConfiguration, GetUser (header_user_id r),
           LogError (''Unable to get user err='' @ err)], Responded 500 [])"
  | (NoPost) cr s user err where
      "header_user_id r \<noteq> []"
      "json_Decode L (body r) = Inr (Some cr)"
      "ownerAndRepo_of (configuration p) (Type cr) = s"
      "s \<noteq> []"
      "length (strings_Split s CHR ''/'') = 2"
      "api_GetUser (API p) (header_user_id r) = Inr user"
      "api_GetPost (API p) (PostID cr) = Inl err"
      "handleCreate L p r =
         ([GetConfiguration, GetUser (header_user_id r), GetConfig, GetPost (PostID cr),
           LogError (''Unable to get post err='' @ err)], Responded 500 [])"
  | (NilSiteURL) cr s user docPost where
      "header_user_id r \<noteq> []"
      "json_Decode L (body r) = Inr (Some cr)"
      "ownerAndRepo_of (configuration p) (Type cr) = s"
      "s \<noteq> []"
      "length (strings_Split s CHR ''/'') = 2"
      "api_GetUser (API p) (header_user_id r) = Inr user"
      "api_GetPost (API p) (PostID cr) = Inr docPost"
      "SiteURL (ServiceSettings (api_GetConfig (API p))) = None"
      "handleCreate L p r =
         ([GetConfiguration, GetUser (header_user_id r), GetConfig, GetPost (PostID cr)], Panic)"
  | (NilPermalink) cr s user docPost site err where
      "header_user_id r \<noteq> []"
      "json_Decode L (body r) = Inr (Some cr)"
      "ownerAndRepo_of (configuration p) (Type cr) = s"
      "s \<noteq> []"
      "length (strings_Split s CHR ''/'') = 2"
      "api_GetUser (API p) (header_user_id r) = Inr user"
      "api_GetPost (API p) (PostID cr) = Inr docPost"
      "SiteURL (ServiceSettings (api_GetConfig (API p))) = Some site"
      "url_Parse L site = Inl err"
      "handleCreate L p r =
         ([GetConfiguration, GetUser (header_user_id r), GetConfig, GetPost (PostID cr)], Panic)"
  | (IssueFailed) cr s user docPost site u link q err where
      "header_user_id r \<noteq> []"
      "json_Decode L (body r) = Inr (Some cr)"
      "ownerAndRepo_of (configuration p) (Type cr) = s"
      "s \<noteq> []"
      "length (strings_Split s CHR ''/'') = 2"
      "api_GetUser (API p) (header_user_id r) = Inr user"
      "api_GetPost (API p) (PostID cr) = Inr docPost"
      "SiteURL (ServiceSettings (api_GetConfig (API p))) = Some site"
      "url_Parse L site = Inr u"
      "link = url_String L (u\<lparr>Path := path_Join L [Path u, ''_redirect'', ''pl'', Id docPost]\<rparr>)"
      "q = \<lparr>IssueTitle = ''Request for Documentation: '' @ Title cr,
            IssueBody = Sprintf body_format [Username user, site, Body cr, link],
            IssueLabels = labels_of (configuration p)\<rparr>"
      "github_Issues_Create p (strings_Split s CHR ''/'' ! 0) (strings_Split s CHR ''/'' ! 1) q
         = Inl err"
      "handleCreate L p r =
         ([GetConfiguration, GetUser (header_user_id r), GetConfig, GetPost (PostID cr),
           IssuesCreate (strings_Split s CHR ''/'' ! 0) (strings_Split s CHR ''/'' ! 1) q,
           LogError (''Error creating GitHub issue err='' @ err)], Responded 500 [])"
  | (PostFailed) cr s user docPost site u link q issue post err where
      "header_user_id r \<noteq> []"
      "json_Decode L (body r) = Inr (Some cr)"
      "ownerAndRepo_of (configuration p) (Type cr) = s"
      "s \<noteq> []"
      "length (strings_Split s CHR ''/'') = 2"
      "api_GetUser (API p) (header_user_id r) = Inr user"
      "api_GetPost (API p) (PostID cr) = Inr docPost"
      "SiteURL (ServiceSettings (api_GetConfig (API p))) = Some site"
      "url_Parse L site = Inr u"
      "link = url_String L (u\<lparr>Path := path_Join L [Path u, ''_redirect'', ''pl'', Id docPost]\<rparr>)"
      "q = \<lparr>IssueTitle = ''Request for Documentation: '' @ Title cr,
            IssueBody = Sprintf body_format [Username user, site, Body cr, link],
            IssueLabels = labels_of (configuration p)\<rparr>"
      "github_Issues_Create p (strings_Split s CHR ''/'' ! 0) (strings_Split s CHR ''/'' ! 1) q
         = Inr issue"
      "post = \<lparr>Id = [], UserId = header_user_id r, ChannelId = ChannelId docPost,
               RootId = rootID_of docPost,
               Message = Sprintf message_format [link, GetHTMLURL issue]\<rparr>"
      "api_CreatePost (API p) post = Inl err"
      "handleCreate L p r =
         ([GetConfiguration, GetUser (header_user_id r), GetConfig, GetPost (PostID cr),
           IssuesCreate (strings_Split s CHR ''/'' ! 0) (strings_Split s CHR ''/'' ! 1) q,
           CreatePost post,
           LogError (''Unable to create post err='' @ err)], Responded 500 [])"
  | (Created) cr s user docPost site u link q issue post created where
      "header_user_id r \<noteq> []"
      "json_Decode L (body r) = Inr (Some cr)"
      "ownerAndRepo_of (configuration p) (Type cr) = s"
      "s \<noteq> []"
      "length (strings_Split s CHR ''/'') = 2"
      "api_GetUser (API p) (header_user_id r) = Inr user"
      "api_GetPost (API p) (PostID cr) = Inr docPost"
      "SiteURL (ServiceSettings (api_GetConfig (API p))) = Some site"
      "url_Parse L site = Inr u"
      "link = url_String L (u\<lparr>Path := path_Join L [Path u, ''_redirect'', ''pl'', Id docPost]\<rparr>)"
      "q = \<lparr>IssueTitle = ''Request for Documentation: '' @ Title cr,
            IssueBody = Sprintf body_format [Username user, site, Body cr, link],
            IssueLabels = labels_of (configuration p)\<rparr>"
      "github_Issues_Create p (strings_Split s CHR ''/'' ! 0) (strings_Split s CHR ''/'' ! 1) q
         = Inr issue"
      "post = \<lparr>Id = [], UserId = header_user_id r, ChannelId = ChannelId docPost,
               RootId = rootID_of docPost,
               Message = Sprintf message_format [link, GetHTMLURL issue]\<rparr>"
      "api_CreatePost (API p) post = Inr created"
      "handleCreate L p r =
         ([GetConfiguration, GetUser (header_user_id r), GetConfig, GetPost (PostID cr),
           IssuesCreate (strings_Split s CHR ''/'' ! 0) (strings_Split s CHR ''/'' ! 1) q,
           CreatePost post], Responded 200 [])"
proof (cases "header_user_id r = []")
  case True
  then show ?thesis by (intro Unauthorized) (simp_all add: handleCreate_def)
next
  case auth: False
  show ?thesis
  proof (cases "json_Decode L (body r)")
    case (Inl err)
    with auth show ?thesis by (intro DecodeError[of err]) (simp_all add: handleCreate_def)
  next
    case (Inr d)
    show ?thesis
    proof (cases d)
      case None
      with auth Inr show ?thesis by (intro NilRequest) (simp_all add: handleCreate_def)
    next
      case (Some cr)
      with Inr have dec: "json_Decode L (body r) = Inr (Some cr)" by simp
      define s where "s = ownerAndRepo_of (configuration p) (Type cr)"
      then have s: "ownerAndRepo_of (configuration p) (Type cr) = s" by simp
      show ?thesis
      proof (cases "s = []")
        case True
        with auth dec s show ?thesis
          by (intro BadRequest[of cr]) (simp_all add: handleCreate_def)
      next
        case ne: False
        show ?thesis
        proof (cases "length (strings_Split s CHR ''/'') = 2")
          case False
          with auth dec s ne show ?thesis
            by (intro BadRepo[of cr s]) (simp_all add: handleCreate_def Let_def)
        next
          case two: True
          show ?thesis
          proof (cases "api_GetUser (API p) (header_user_id r)")
            case (Inl err)
            with auth dec s ne two show ?thesis
              by (intro NoUser[of cr s err]) (simp_all add: handleCreate_def Let_def)
          next
            case usr: (Inr user)
            show ?thesis
            proof (cases "api_GetPost (API p) (PostID cr)")
              case (Inl err)
              with auth dec s ne two usr show ?thesis
                by (intro NoPost[of cr s user err]) (simp_all add: handleCreate_def Let_def)
            next
              case pst: (Inr docPost)
              show ?thesis
              proof (cases "SiteURL (ServiceSettings (api_GetConfig (API p)))")
                case None
                with auth dec s ne two usr pst show ?thesis
                  by (intro NilSiteURL[of cr s user docPost])
                     (simp_all add: handleCreate_def Let_def)
              next
                case site: (Some site)
                show ?thesis
                proof (cases "url_Parse L site")
                  case (Inl err)
                  with auth dec s ne two usr pst site show ?thesis
                    by (intro NilPermalink[of cr s user docPost site err])
                       (simp_all add: handleCreate_def Let_def)
                next
                  case url: (Inr u)
                  define link where "link = url_String L
                    (u\<lparr>Path := path_Join L [Path u, ''_redirect'', ''pl'', Id docPost]\<rparr>)"
                  define q where "q = \<lparr>IssueTitle = ''Request for Documentation: '' @ Title cr,
                    IssueBody = Sprintf body_format [Username user, site, Body cr, link],
                    IssueLabels = labels_of (configuration p)\<rparr>"
                  show ?thesis
                  proof (cases "github_Issues_Create p (strings_Split s CHR ''/'' ! 0)
                                  (strings_Split s CHR ''/'' ! 1) q")
                    case (Inl err)
                    with auth dec s ne two usr pst site url link_def q_def show ?thesis
                      by (intro IssueFailed[of cr s user docPost site u link q err])
                         (simp_all add: handleCreate_def Let_def)
                  next
                    case iss: (Inr issue)
                    define post where "post = \<lparr>Id = [], UserId = header_user_id r,
                      ChannelId = ChannelId docPost, RootId = rootID_of docPost,
                      Message = Sprintf message_format [link, GetHTMLURL issue]\<rparr>"
                    show ?thesis
                    proof (cases "api_CreatePost (API p) post")
                      case (Inl err)
                      with auth dec s ne two usr pst site url link_def q_def iss post_def
                      show ?thesis
                        by (intro PostFailed[of cr s user docPost site u link q issue post err])
                           (simp_all add: handleCreate_def Let_def)
                    next
                      case (Inr created)
                      with auth dec s ne two usr pst site url link_def q_def iss post_def
                      show ?thesis
                        by (intro Created[of cr s user docPost site u link q issue post created])
                           (simp_all add: handleCreate_def Let_def)
                    qed
                  qed
                qed
              qed
            qed
          qed
        qed
      qed
    qed
  qed
qed

lemmas scenario_defs =
  scenario_request_def scenario_plugin_def scenario_API_def scenario_config_def
  scenario_issue_def scenario_docPost_def scenario_reply_def scenario_user_def
  scenario_lib_def scenario_url_def scenario_createRequest_def scenario_body_def
  admin_body_def handbook_body_def marketing_body_def reply_body_def

subsection \<open>Runs of the concrete deployment\<close>

lemmas handler_defs = handleCreate_def Let_def ownerAndRepo_of_def labels_of_def rootID_of_def
  body_format_def message_format_def GetHTMLURL_def

lemma scenario_run:
  "handleCreate scenario_lib scenario_plugin scenario_request =
     ([GetConfiguration, GetUser ''U1'', GetConfig, GetPost ''M1'',
       IssuesCreate ''org'' ''repo'' scenario_issueRequest, CreatePost scenario_post],
      Responded 200 [])"
  by (simp add: handler_defs scenario_defs scenario_issueRequest_def scenario_post_def)

lemma scenario_run_reply:
  "handleCreate scenario_lib scenario_plugin (scenario_request\<lparr>body := reply_body\<rparr>) =
     ([GetConfiguration, GetUser ''U1'', GetConfig, GetPost ''M7'',
       IssuesCreate ''org'' ''repo''
         (scenario_issueRequest\<lparr>IssueBody := Sprintf body_format
            [''alice'', ''https://chat.example.com'', ''B'', ''https://chat.example.com/_redirect/pl/M7'']\<rparr>),
       CreatePost (scenario_post\<lparr>Message := Sprintf message_format
            [''https://chat.example.com/_redirect/pl/M7'', ''https://github.com/org/repo/issues/1'']\<rparr>)],
      Responded 200 [])"
  by (simp add: handler_defs scenario_defs scenario_issueRequest_def scenario_post_def)

lemma scenario_run_handbook:
  "handleCreate scenario_lib scenario_plugin (scenario_request\<lparr>body := handbook_body\<rparr>) =
     ([GetConfiguration, LogError ''Bad configured repo: handbook''], Responded 500 [])"
  by (simp add: handler_defs scenario_defs)

lemma scenario_run_admin:
  "handleCreate scenario_lib scenario_plugin (scenario_request\<lparr>body := admin_body\<rparr>) =
     ([GetConfiguration], Responded 400 [])"
  by (simp add: handler_defs scenario_defs)

lemma scenario_run_marketing:
  "handleCreate scenario_lib scenario_plugin (scenario_request\<lparr>body := marketing_body\<rparr>) =
     ([GetConfiguration], Responded 400 [])"
  by (simp add: handler_defs scenario_defs)

lemma scenario_run_null:
  "handleCreate scenario_lib scenario_plugin (scenario_request\<lparr>body := ''null''\<rparr>) =
     ([GetConfiguration], Panic)"
  by (simp add: handler_defs scenario_defs)

lemma scenario_run_truncated:
  "handleCreate scenario_lib scenario_plugin (scenario_request\<lparr>body := ''{''\<rparr>) =
     ([LogError ''Unable to decode JSON err=unexpected EOF''], Responded 500 [])"
  by (simp add: handler_defs scenario_defs)

lemma scenario_run_empty_owner:
  "handleCreate scenario_lib
     (scenario_plugin\<lparr>configuration := scenario_config\<lparr>DeveloperRepository := ''/repo''\<rparr>\<rparr>)
     scenario_request =
     ([GetConfiguration, GetUser ''U1'', GetConfig, GetPost ''M1'',
       IssuesCreate [] ''repo'' scenario_issueRequest,
       LogError ''Error creating GitHub issue err=404 Not Found''],
      Responded 500 [])"
  by (simp add: handler_defs scenario_defs scenario_issueRequest_def scenario_post_def)

lemma scenario_run_no_labels:
  "handleCreate scenario_lib
     (scenario_plugin\<lparr>configuration := scenario_config\<lparr>Labels := []\<rparr>\<rparr>)
     scenario_request =
     ([GetConfiguration, GetUser ''U1'', GetConfig, GetPost ''M1'',
       IssuesCreate ''org'' ''repo'' (scenario_issueRequest\<lparr>IssueLabels := []\<rparr>),
       CreatePost scenario_post],
      Responded 200 [])"
  by (simp add: handler_defs scenario_defs scenario_issueRequest_def scenario_post_def)

lemma scenario_run_no_site:
  "handleCreate scenario_lib
     (scenario_plugin\<lparr>API := scenario_API\<lparr>api_GetConfig :=
         \<lparr>ServiceSettings = \<lparr>SiteURL = None\<rparr>\<rparr>\<rparr>\<rparr>)
     scenario_request =
     ([GetConfiguration, GetUser ''U1'', GetConfig, GetPost ''M1''], Panic)"
  by (simp add: handler_defs scenario_defs)

lemma scenario_run_bad_site:
  "handleCreate scenario_lib
     (scenario_plugin\<lparr>API := scenario_API\<lparr>api_GetConfig :=
         \<lparr>ServiceSettings = \<lparr>SiteURL = Some ''://chat''\<rparr>\<rparr>\<rparr>\<rparr>)
     scenario_request =
     ([GetConfiguration, GetUser ''U1'', GetConfig, GetPost ''M1''], Panic)"
  by (simp add: handler_defs scenario_defs)

lemma scenario_run_post_refused:
  "handleCreate scenario_lib
     (scenario_plugin\<lparr>API := scenario_API\<lparr>api_CreatePost := (\<lambda>post. Inl ''channel archived'')\<rparr>\<rparr>)
     scenario_request =
     ([GetConfiguration, GetUser ''U1'', GetConfig, GetPost ''M1'',
       IssuesCreate ''org'' ''repo'' scenario_issueRequest, CreatePost scenario_post,
       LogError ''Unable to create post err=channel archived''],
      Responded 500 [])"
  by (simp add: handler_defs scenario_defs scenario_issueRequest_def scenario_post_def)

lemma scenario_run_no_user:
  "handleCreate scenario_lib scenario_plugin (scenario_request\<lparr>header_user_id := ''U5''\<rparr>) =
     ([GetConfiguration, GetUser ''U5'', LogError ''Unable to get user err=no such user''],
      Responded 500 [])"
  by (simp add: handler_defs scenario_defs)

subsection \<open>The claims\<close>
text \<open>
  C1. The end-to-end scenario: header \<^verbatim>\<open>U1\<close>, the developer payload for post \<^verbatim>\<open>M1\<close>,
  the developer repository \<^verbatim>\<open>org/repo\<close>, \<^verbatim>\<open>M1\<close> without a parent, the site
  \<^verbatim>\<open>https://chat.example.com\<close>, and a tracker and a host that accept what the handler
  sends. The handler makes one call to create an issue, in \<^verbatim>\<open>org\<close>/\<^verbatim>\<open>repo\<close> with the
  title \<^verbatim>\<open>Request for Documentation: T\<close>, then one call to create a post, in the
  channel of \<^verbatim>\<open>M1\<close> with \<^verbatim>\<open>RootId = M1\<close>; the message holds the permalink
  \<^verbatim>\<open>https://chat.example.com/_redirect/pl/M1\<close> and the URL of the issue; the answer
  is 200. The library's values on the scenario's inputs are hypotheses.
\<close>

theorem handleCreate_end_to_end:
  assumes "header_user_id r = ''U1''"
    and "body r = scenario_body"
    and "json_Decode L scenario_body =
           Inr (Some \<lparr>Type = ''developer'', Title = ''T'', Body = ''B'', PostID = ''M1''\<rparr>)"
    and "DeveloperRepository (configuration p) = ''org/repo''"
    and "api_GetUser (API p) ''U1'' = Inr user"
    and "api_GetPost (API p) ''M1'' = Inr docPost"
    and "Id docPost = ''M1''"
    and "RootId docPost = []"
    and "SiteURL (ServiceSettings (api_GetConfig (API p))) = Some ''https://chat.example.com''"
    and "url_Parse L ''https://chat.example.com'' = Inr u"
    and "Path u = []"
    and "path_Join L [[], ''_redirect'', ''pl'', ''M1''] = ''_redirect/pl/M1''"
    and "url_String L (u\<lparr>Path := ''_redirect/pl/M1''\<rparr>)
           = ''https://chat.example.com/_redirect/pl/M1''"
    and "q = \<lparr>IssueTitle = ''Request for Documentation: T'',
               IssueBody = Sprintf body_format
                 [Username user, ''https://chat.example.com'', ''B'',
                  ''https://chat.example.com/_redirect/pl/M1''],
               IssueLabels = labels_of (configuration p)\<rparr>"
    and "github_Issues_Create p ''org'' ''repo'' q = Inr issue"
    and "post = \<lparr>Id = [], UserId = ''U1'', ChannelId = ChannelId docPost, RootId = ''M1'',
                  Message = ''Marked [this post](https://chat.example.com/_redirect/pl/M1) for documentation [here]('' @ GetHTMLURL issue @ '').\<newline>\<newline>_Generated by the [Doc Up](https://github.com/jwilander/mattermost-plugin-docup) plugin._''\<rparr>"
    and "api_CreatePost (API p) post = Inr created"
  shows "handleCreate L p r =
           ([GetConfiguration, GetUser ''U1'', GetConfig, GetPost ''M1'',
             IssuesCreate ''org'' ''repo'' q, CreatePost post],
            Responded 200 []) \<and>
         sublist ''https://chat.example.com/_redirect/pl/M1'' (Message post) \<and>
         sublist (GetHTMLURL issue) (Message post)"
proof (intro conjI)
  from assms show "handleCreate L p r =
           ([GetConfiguration, GetUser ''U1'', GetConfig, GetPost ''M1'',
             IssuesCreate ''org'' ''repo'' q, CreatePost post], Responded 200 [])"
    by (simp add: handleCreate_def Let_def ownerAndRepo_of_def rootID_of_def message_format_def)
next
  have "Message post = ''Marked [this post]('' @ ''https://chat.example.com/_redirect/pl/M1'' @
          ('') for documentation [here]('' @ GetHTMLURL issue @ '').\<newline>\<newline>_Generated by the [Doc Up](https://github.com/jwilander/mattermost-plugin-docup) plugin._'')"
    by (simp add: assms(16))
  then show "sublist ''https://chat.example.com/_redirect/pl/M1'' (Message post)"
    unfolding sublist_def by blast
next
  have "Message post = ''Marked [this post](https://chat.example.com/_redirect/pl/M1) for documentation [here]('' @ GetHTMLURL issue @ '').\<newline>\<newline>_Generated by the [Doc Up](https://github.com/jwilander/mattermost-plugin-docup) plugin._''"
    by (simp add: assms(16))
  then show "sublist (GetHTMLURL issue) (Message post)"
    unfolding sublist_def by blast
qed

theorem handleCreate_end_to_end_witness:
  "handleCreate scenario_lib scenario_plugin scenario_request =
     ([GetConfiguration, GetUser ''U1'', GetConfig, GetPost ''M1'',
       IssuesCreate ''org'' ''repo'' scenario_issueRequest, CreatePost scenario_post],
      Responded 200 []) \<and>
   sublist ''https://chat.example.com/_redirect/pl/M1'' (Message scenario_post) \<and>
   sublist (GetHTMLURL scenario_issue) (Message scenario_post)"
  by (rule handleCreate_end_to_end
        [where r = scenario_request and L = scenario_lib and p = scenario_plugin
           and user = scenario_user and docPost = scenario_docPost and u = scenario_url
           and issue = scenario_issue and created = "scenario_post\<lparr>Id := ''M9''\<rparr>"])
     (simp_all add: scenario_defs scenario_issueRequest_def scenario_post_def labels_of_def
        body_format_def GetHTMLURL_def)

text \<open>
  C2. A failure ends the run at once. A lookup, the issue creation or the post creation
  that returns an error is followed by the log call and nothing else, and the answer is
  500; whatever is logged is the last call of its run; a run that ends otherwise than in
  200 and without a log has called neither the tracker nor \<^verbatim>\<open>CreatePost\<close>. The tracker
  is called only after the user and the source post were both read with success, and the
  confirmation is posted only right after an issue creation that succeeded. No function
  is called twice in a run.
\<close>

theorem handleCreate_aborts_on_failure:
  "(\<forall>i err. GetUser i \<in> set (fst (handleCreate L p r)) \<and> api_GetUser (API p) i = Inl err \<longrightarrow>
      handleCreate L p r =
        ([GetConfiguration, GetUser i, LogError (''Unable to get user err='' @ err)],
         Responded 500 [])) \<and>
   (\<forall>i err. GetPost i \<in> set (fst (handleCreate L p r)) \<and> api_GetPost (API p) i = Inl err \<longrightarrow>
      handleCreate L p r =
        ([GetConfiguration, GetUser (header_user_id r), GetConfig, GetPost i,
          LogError (''Unable to get post err='' @ err)],
         Responded 500 [])) \<and>
   (\<forall>owner repo q err.
      IssuesCreate owner repo q \<in> set (fst (handleCreate L p r)) \<and>
      github_Issues_Create p owner repo q = Inl err \<longrightarrow>
      drop 4 (fst (handleCreate L p r)) =
        [IssuesCreate owner repo q, LogError (''Error creating GitHub issue err='' @ err)] \<and>
      snd (handleCreate L p r) = Responded 500 []) \<and>
   (\<forall>post err.
      CreatePost post \<in> set (fst (handleCreate L p r)) \<and>
      api_CreatePost (API p) post = Inl err \<longrightarrow>
      drop 5 (fst (handleCreate L p r)) =
        [CreatePost post, LogError (''Unable to create post err='' @ err)] \<and>
      snd (handleCreate L p r) = Responded 500 []) \<and>
   (\<forall>m. LogError m \<in> set (fst (handleCreate L p r)) \<longrightarrow>
      last (fst (handleCreate L p r)) = LogError m \<and>
      snd (handleCreate L p r) = Responded 500 []) \<and>
   (snd (handleCreate L p r) \<noteq> Responded 200 [] \<and>
    (\<forall>m. LogError m \<notin> set (fst (handleCreate L p r))) \<longrightarrow>
      (\<forall>owner repo q. IssuesCreate owner repo q \<notin> set (fst (handleCreate L p r))) \<and>
      (\<forall>post. CreatePost post \<notin> set (fst (handleCreate L p r)))) \<and>
   (\<forall>owner repo q. IssuesCreate owner repo q \<in> set (fst (handleCreate L p r)) \<longrightarrow>
      (\<exists>cr user docPost.
         json_Decode L (body r) = Inr (Some cr) \<and>
         api_GetUser (API p) (header_user_id r) = Inr user \<and>
         api_GetPost (API p) (PostID cr) = Inr docPost \<and>
         take 4 (fst (handleCreate L p r)) =
           [GetConfiguration, GetUser (header_user_id r), GetConfig, GetPost (PostID cr)])) \<and>
   (\<forall>post. CreatePost post \<in> set (fst (handleCreate L p r)) \<longrightarrow>
      (\<exists>owner repo q issue.
         github_Issues_Create p owner repo q = Inr issue \<and>
         fst (handleCreate L p r) ! 4 = IssuesCreate owner repo q \<and>
         fst (handleCreate L p r) ! 5 = CreatePost post)) \<and>
   distinct (map call_name (fst (handleCreate L p r)))"
proof (intro conjI allI impI; (elim conjE)?)
  fix i err
  assume "GetUser i \<in> set (fst (handleCreate L p r))" "api_GetUser (API p) i = Inl err"
  then show "handleCreate L p r =
      ([GetConfiguration, GetUser i, LogError (''Unable to get user err='' @ err)],
       Responded 500 [])"
    by (cases rule: handleCreate_cases[of r L p]) auto
next
  fix i err
  assume "GetPost i \<in> set (fst (handleCreate L p r))" "api_GetPost (API p) i = Inl err"
  then show "handleCreate L p r =
      ([GetConfiguration, GetUser (header_user_id r), GetConfig, GetPost i,
        LogError (''Unable to get post err='' @ err)], Responded 500 [])"
    by (cases rule: handleCreate_cases[of r L p]) auto
next
  fix owner repo q err
  assume *: "IssuesCreate owner repo q \<in> set (fst (handleCreate L p r))"
    "github_Issues_Create p owner repo q = Inl err"
  then show "drop 4 (fst (handleCreate L p r)) =
      [IssuesCreate owner repo q, LogError (''Error creating GitHub issue err='' @ err)]"
    by (cases rule: handleCreate_cases[of r L p]) auto
  from * show "snd (handleCreate L p r) = Responded 500 []"
    by (cases rule: handleCreate_cases[of r L p]) auto
next
  fix post err
  assume *: "CreatePost post \<in> set (fst (handleCreate L p r))"
    "api_CreatePost (API p) post = Inl err"
  then show "drop 5 (fst (handleCreate L p r)) =
      [CreatePost post, LogError (''Unable to create post err='' @ err)]"
    by (cases rule: handleCreate_cases[of r L p]) auto
  from * show "snd (handleCreate L p r) = Responded 500 []"
    by (cases rule: handleCreate_cases[of r L p]) auto
next
  fix m
  assume *: "LogError m \<in> set (fst (handleCreate L p r))"
  then show "last (fst (handleCreate L p r)) = LogError m"
    by (cases rule: handleCreate_cases[of r L p]) auto
  from * show "snd (handleCreate L p r) = Responded 500 []"
    by (cases rule: handleCreate_cases[of r L p]) auto
next
  fix owner repo q
  assume "snd (handleCreate L p r) \<noteq> Responded 200 []"
    "\<forall>m. LogError m \<notin> set (fst (handleCreate L p r))"
  then show "IssuesCreate owner repo q \<notin> set (fst (handleCreate L p r))"
    by (cases rule: handleCreate_cases[of r L p]) auto
next
  fix post
  assume "snd (handleCreate L p r) \<noteq> Responded 200 []"
    "\<forall>m. LogError m \<notin> set (fst (handleCreate L p r))"
  then show "CreatePost post \<notin> set (fst (handleCreate L p r))"
    by (cases rule: handleCreate_cases[of r L p]) auto
next
  fix owner repo q
  assume "IssuesCreate owner repo q \<in> set (fst (handleCreate L p r))"
  then show "\<exists>cr user docPost.
         json_Decode L (body r) = Inr (Some cr) \<and>
         api_GetUser (API p) (header_user_id r) = Inr user \<and>
         api_GetPost (API p) (PostID cr) = Inr docPost \<and>
         take 4 (fst (handleCreate L p r)) =
           [GetConfiguration, GetUser (header_user_id r), GetConfig, GetPost (PostID cr)]"
    by (cases rule: handleCreate_cases[of r L p]) auto
next
  fix post
  assume "CreatePost post \<in> set (fst (handleCreate L p r))"
  then show "\<exists>owner repo q issue.
         github_Issues_Create p owner repo q = Inr issue \<and>
         fst (handleCreate L p r) ! 4 = IssuesCreate owner repo q \<and>
         fst (handleCreate L p r) ! 5 = CreatePost post"
    by (cases rule: handleCreate_cases[of r L p]) auto
next
  show "distinct (map call_name (fst (handleCreate L p r)))"
    by (cases rule: handleCreate_cases[of r L p]) simp_all
qed

theorem handleCreate_aborts_on_failure_witness:
  "drop 4 (fst (handleCreate scenario_lib
       (scenario_plugin\<lparr>configuration := scenario_config\<lparr>DeveloperRepository := ''/repo''\<rparr>\<rparr>)
       scenario_request)) =
     [IssuesCreate [] ''repo'' scenario_issueRequest,
      LogError ''Error creating GitHub issue err=404 Not Found''] \<and>
   snd (handleCreate scenario_lib
       (scenario_plugin\<lparr>configuration := scenario_config\<lparr>DeveloperRepository := ''/repo''\<rparr>\<rparr>)
       scenario_request) = Responded 500 [] \<and>
   drop 5 (fst (handleCreate scenario_lib
       (scenario_plugin\<lparr>API := scenario_API\<lparr>api_CreatePost := (\<lambda>post. Inl ''channel archived'')\<rparr>\<rparr>)
       scenario_request)) =
     [CreatePost scenario_post, LogError ''Unable to create post err=channel archived''] \<and>
   handleCreate scenario_lib scenario_plugin (scenario_request\<lparr>header_user_id := ''U5''\<rparr>) =
     ([GetConfiguration, GetUser ''U5'', LogError ''Unable to get user err=no such user''],
      Responded 500 []) \<and>
   fst (handleCreate scenario_lib scenario_plugin scenario_request) ! 4 =
     IssuesCreate ''org'' ''repo'' scenario_issueRequest \<and>
   github_Issues_Create scenario_plugin ''org'' ''repo'' scenario_issueRequest = Inr scenario_issue \<and>
   api_GetUser (API scenario_plugin) ''U1'' = Inr scenario_user \<and>
   api_GetPost (API scenario_plugin) ''M1'' = Inr scenario_docPost \<and>
   distinct (map call_name (fst (handleCreate scenario_lib scenario_plugin scenario_request)))"
proof -
  let ?refusing = "scenario_plugin\<lparr>configuration := scenario_config\<lparr>DeveloperRepository := ''/repo''\<rparr>\<rparr>"
  let ?archived = "scenario_plugin\<lparr>API := scenario_API\<lparr>api_CreatePost := (\<lambda>post. Inl ''channel archived'')\<rparr>\<rparr>"
  let ?stranger = "scenario_request\<lparr>header_user_id := ''U5''\<rparr>"
  note a = handleCreate_aborts_on_failure[of scenario_lib ?refusing scenario_request]
  note b = handleCreate_aborts_on_failure[of scenario_lib ?archived scenario_request]
  note c = handleCreate_aborts_on_failure[of scenario_lib scenario_plugin ?stranger]
  note d = handleCreate_aborts_on_failure[of scenario_lib scenario_plugin scenario_request]
  have 1: "IssuesCreate [] ''repo'' scenario_issueRequest
             \<in> set (fst (handleCreate scenario_lib ?refusing scenario_request)) \<and>
           github_Issues_Create ?refusing [] ''repo'' scenario_issueRequest = Inl ''404 Not Found''"
    by (simp add: scenario_run_empty_owner) (simp add: scenario_plugin_def)
  have 2: "CreatePost scenario_post
             \<in> set (fst (handleCreate scenario_lib ?archived scenario_request)) \<and>
           api_CreatePost (API ?archived) scenario_post = Inl ''channel archived''"
    by (simp add: scenario_run_post_refused)
  have 3: "GetUser ''U5'' \<in> set (fst (handleCreate scenario_lib scenario_plugin ?stranger)) \<and>
           api_GetUser (API scenario_plugin) ''U5'' = Inl ''no such user''"
    by (simp add: scenario_run_no_user) (simp add: scenario_plugin_def scenario_API_def)
  from a 1 have r1: "drop 4 (fst (handleCreate scenario_lib ?refusing scenario_request)) =
     [IssuesCreate [] ''repo'' scenario_issueRequest,
      LogError (''Error creating GitHub issue err='' @ ''404 Not Found'')] \<and>
     snd (handleCreate scenario_lib ?refusing scenario_request) = Responded 500 []"
    by blast
  from b 2 have r2: "drop 5 (fst (handleCreate scenario_lib ?archived scenario_request)) =
     [CreatePost scenario_post, LogError (''Unable to create post err='' @ ''channel archived'')]"
    by blast
  from c 3 have r3: "handleCreate scenario_lib scenario_plugin ?stranger =
     ([GetConfiguration, GetUser ''U5'', LogError (''Unable to get user err='' @ ''no such user'')],
      Responded 500 [])"
    by blast
  from d have r4: "distinct (map call_name (fst (handleCreate scenario_lib scenario_plugin scenario_request)))"
    by blast
  have r5: "fst (handleCreate scenario_lib scenario_plugin scenario_request) ! 4 =
     IssuesCreate ''org'' ''repo'' scenario_issueRequest \<and>
   github_Issues_Create scenario_plugin ''org'' ''repo'' scenario_issueRequest = Inr scenario_issue \<and>
   api_GetUser (API scenario_plugin) ''U1'' = Inr scenario_user \<and>
   api_GetPost (API scenario_plugin) ''M1'' = Inr scenario_docPost"
    by (simp add: scenario_run) (simp add: scenario_plugin_def scenario_API_def)
  from r1 r2 r3 r4 r5 show ?thesis by simp
qed

text \<open>
  C3. A request without the \<^verbatim>\<open>Mattermost-User-ID\<close> header is answered 401 and the
  handler makes no call at all: it reads no configuration, creates no issue and creates
  no post.
\<close>

theorem handleCreate_unauthorized:
  "header_user_id r = [] \<Longrightarrow>
     handleCreate L p r = ([], Responded 401 ''Not authorized\<newline>'')"
  by (simp add: handleCreate_def)

theorem handleCreate_unauthorized_witness:
  "header_user_id (scenario_request\<lparr>header_user_id := []\<rparr>) = [] \<and>
   handleCreate scenario_lib scenario_plugin (scenario_request\<lparr>header_user_id := []\<rparr>)
     = ([], Responded 401 ''Not authorized\<newline>'')"
  using handleCreate_unauthorized
          [of "scenario_request\<lparr>header_user_id := []\<rparr>" scenario_lib scenario_plugin]
  by simp

text \<open>
  C4. An authenticated request with a decoded payload whose type is none of
  \<^verbatim>\<open>admin\<close>, \<^verbatim>\<open>developer\<close>, \<^verbatim>\<open>handbook\<close>, or whose type selects a repository
  setting that is empty, is answered 400; the run reads the configuration and calls
  nothing else, so no issue and no post are created.
\<close>

theorem handleCreate_bad_type:
  assumes "header_user_id r \<noteq> []"
    and "json_Decode L (body r) = Inr (Some cr)"
    and "Type cr \<notin> {''admin'', ''developer'', ''handbook''}
         \<or> (Type cr = ''admin'' \<and> AdminRepository (configuration p) = [])
         \<or> (Type cr = ''developer'' \<and> DeveloperRepository (configuration p) = [])
         \<or> (Type cr = ''handbook'' \<and> HandbookRepository (configuration p) = [])"
  shows "handleCreate L p r = ([GetConfiguration], Responded 400 [])"
proof -
  from assms(3) have "ownerAndRepo_of (configuration p) (Type cr) = []"
    by (auto simp: ownerAndRepo_of_def)
  with assms(1,2) show ?thesis
    by (simp add: handleCreate_def)
qed

theorem handleCreate_bad_type_witness:
  "handleCreate scenario_lib scenario_plugin (scenario_request\<lparr>body := marketing_body\<rparr>)
     = ([GetConfiguration], Responded 400 []) \<and>
   handleCreate scenario_lib scenario_plugin (scenario_request\<lparr>body := admin_body\<rparr>)
     = ([GetConfiguration], Responded 400 [])"
proof
  show "handleCreate scenario_lib scenario_plugin (scenario_request\<lparr>body := marketing_body\<rparr>)
     = ([GetConfiguration], Responded 400 [])"
    by (rule handleCreate_bad_type[where cr = "scenario_createRequest\<lparr>Type := ''marketing''\<rparr>"])
       (simp_all add: scenario_defs)
  show "handleCreate scenario_lib scenario_plugin (scenario_request\<lparr>body := admin_body\<rparr>)
     = ([GetConfiguration], Responded 400 [])"
    by (rule handleCreate_bad_type[where cr = "scenario_createRequest\<lparr>Type := ''admin''\<rparr>"])
       (simp_all add: scenario_defs)
qed

text \<open>
  C5. For an authenticated request with a decoded payload that reaches the split of
  line 101, that is, whose resolved repository string \<open>s\<close> passed the guard of line 96
  and is not empty: if \<open>s\<close> does not hold exactly one \<^verbatim>\<open>/\<close>, the split does not give
  two parts, the handler logs \<^verbatim>\<open>Bad configured repo: s\<close> and answers 500, having called
  nothing else, so no issue is created; if \<open>s\<close> holds exactly one \<^verbatim>\<open>/\<close>, the two parts
  are what stands before and after it, either of which may be empty, the handler goes on
  to the user lookup, and an issue it creates has those parts as owner and repository.
\<close>

theorem handleCreate_bad_repo:
  assumes "header_user_id r \<noteq> []"
    and "json_Decode L (body r) = Inr (Some cr)"
    and "ownerAndRepo_of (configuration p) (Type cr) = s"
    and "s \<noteq> []"
  shows "(count_list s CHR ''/'' \<noteq> 1 \<longrightarrow>
            length (strings_Split s CHR ''/'') \<noteq> 2 \<and>
            handleCreate L p r =
              ([GetConfiguration, LogError (''Bad configured repo: '' @ s)], Responded 500 [])) \<and>
         (count_list s CHR ''/'' = 1 \<longrightarrow>
            strings_Split s CHR ''/'' =
              [takeWhile (\<lambda>c. c \<noteq> CHR ''/'') s, tl (dropWhile (\<lambda>c. c \<noteq> CHR ''/'') s)] \<and>
            GetUser (header_user_id r) \<in> set (fst (handleCreate L p r)) \<and>
            LogError (''Bad configured repo: '' @ s) \<notin> set (fst (handleCreate L p r)) \<and>
            (\<forall>owner repo q. IssuesCreate owner repo q \<in> set (fst (handleCreate L p r)) \<longrightarrow>
               owner = takeWhile (\<lambda>c. c \<noteq> CHR ''/'') s \<and>
               repo = tl (dropWhile (\<lambda>c. c \<noteq> CHR ''/'') s)))"
proof (intro conjI impI)
  assume n: "count_list s CHR ''/'' \<noteq> 1"
  then show len: "length (strings_Split s CHR ''/'') \<noteq> 2"
    by (simp add: length_strings_Split)
  with assms show "handleCreate L p r =
      ([GetConfiguration, LogError (''Bad configured repo: '' @ s)], Responded 500 [])"
    by (simp add: handleCreate_def Let_def)
next
  assume one: "count_list s CHR ''/'' = 1"
  then show sp: "strings_Split s CHR ''/'' =
      [takeWhile (\<lambda>c. c \<noteq> CHR ''/'') s, tl (dropWhile (\<lambda>c. c \<noteq> CHR ''/'') s)]"
    by (rule strings_Split_one_sep)
  from assms sp show "GetUser (header_user_id r) \<in> set (fst (handleCreate L p r))"
    by (cases rule: handleCreate_cases[of r L p]) auto
  from assms sp show "LogError (''Bad configured repo: '' @ s) \<notin> set (fst (handleCreate L p r))"
    by (cases rule: handleCreate_cases[of r L p]) auto
  from assms sp show "\<forall>owner repo q. IssuesCreate owner repo q \<in> set (fst (handleCreate L p r)) \<longrightarrow>
               owner = takeWhile (\<lambda>c. c \<noteq> CHR ''/'') s \<and>
               repo = tl (dropWhile (\<lambda>c. c \<noteq> CHR ''/'') s)"
    by (cases rule: handleCreate_cases[of r L p]) auto
qed

theorem handleCreate_bad_repo_witness:
  "handleCreate scenario_lib scenario_plugin (scenario_request\<lparr>body := handbook_body\<rparr>) =
     ([GetConfiguration, LogError ''Bad configured repo: handbook''], Responded 500 []) \<and>
   strings_Split ''/repo'' CHR ''/'' = [[], ''repo''] \<and>
   GetUser ''U1'' \<in> set (fst (handleCreate scenario_lib
     (scenario_plugin\<lparr>configuration := scenario_config\<lparr>DeveloperRepository := ''/repo''\<rparr>\<rparr>)
     scenario_request)) \<and>
   LogError ''Bad configured repo: /repo'' \<notin> set (fst (handleCreate scenario_lib
     (scenario_plugin\<lparr>configuration := scenario_config\<lparr>DeveloperRepository := ''/repo''\<rparr>\<rparr>)
     scenario_request)) \<and>
   fst (handleCreate scenario_lib
     (scenario_plugin\<lparr>configuration := scenario_config\<lparr>DeveloperRepository := ''/repo''\<rparr>\<rparr>)
     scenario_request) ! 4 = IssuesCreate [] ''repo'' scenario_issueRequest"
proof -
  let ?p = "scenario_plugin\<lparr>configuration := scenario_config\<lparr>DeveloperRepository := ''/repo''\<rparr>\<rparr>"
  have "count_list ''handbook'' CHR ''/'' \<noteq> 1"
    by simp
  with handleCreate_bad_repo
         [where r = "scenario_request\<lparr>body := handbook_body\<rparr>" and L = scenario_lib
            and p = scenario_plugin and s = "''handbook''"
            and cr = "scenario_createRequest\<lparr>Type := ''handbook''\<rparr>"]
  have a: "handleCreate scenario_lib scenario_plugin (scenario_request\<lparr>body := handbook_body\<rparr>) =
     ([GetConfiguration, LogError (''Bad configured repo: '' @ ''handbook'')], Responded 500 [])"
    by (simp add: scenario_defs ownerAndRepo_of_def)
  have "count_list ''/repo'' CHR ''/'' = 1"
    by simp
  with handleCreate_bad_repo
         [where r = scenario_request and L = scenario_lib and p = ?p and s = "''/repo''"
            and cr = scenario_createRequest]
  have b: "strings_Split ''/repo'' CHR ''/'' = [[], ''repo''] \<and>
     GetUser ''U1'' \<in> set (fst (handleCreate scenario_lib ?p scenario_request)) \<and>
     LogError (''Bad configured repo: '' @ ''/repo'')
       \<notin> set (fst (handleCreate scenario_lib ?p scenario_request))"
    by (simp add: scenario_defs ownerAndRepo_of_def)
  have c: "fst (handleCreate scenario_lib ?p scenario_request) ! 4
             = IssuesCreate [] ''repo'' scenario_issueRequest"
    by (simp add: scenario_run_empty_owner)
  from a b c show ?thesis by simp
qed

text \<open>
  C6. A request that reaches label parsing (authenticated, decoded, with a repository
  string that splits in two) always goes on to the user lookup, whatever the label
  setting is, and every issue the run creates carries the labels \<open>[a, b, c]\<close> when the
  setting is \<^verbatim>\<open>a,b,c\<close> and no label when the setting is empty.
\<close>

theorem handleCreate_labels:
  assumes "header_user_id r \<noteq> []"
    and "json_Decode L (body r) = Inr (Some cr)"
    and "length (strings_Split (ownerAndRepo_of (configuration p) (Type cr)) CHR ''/'') = 2"
  shows "GetUser (header_user_id r) \<in> set (fst (handleCreate L p r)) \<and>
         (\<forall>owner repo q. IssuesCreate owner repo q \<in> set (fst (handleCreate L p r)) \<longrightarrow>
            (Labels (configuration p) = ''a,b,c'' \<longrightarrow> IssueLabels q = [''a'', ''b'', ''c'']) \<and>
            (Labels (configuration p) = [] \<longrightarrow> IssueLabels q = []))"
  using assms
  by (cases rule: handleCreate_cases[of r L p]) (auto simp: labels_of_def)

theorem handleCreate_labels_witness:
  "fst (handleCreate scenario_lib scenario_plugin scenario_request) ! 4 =
     IssuesCreate ''org'' ''repo'' scenario_issueRequest \<and>
   Labels (configuration scenario_plugin) = ''a,b,c'' \<and>
   IssueLabels scenario_issueRequest = [''a'', ''b'', ''c''] \<and>
   handleCreate scenario_lib
     (scenario_plugin\<lparr>configuration := scenario_config\<lparr>Labels := []\<rparr>\<rparr>) scenario_request =
     ([GetConfiguration, GetUser ''U1'', GetConfig, GetPost ''M1'',
       IssuesCreate ''org'' ''repo'' (scenario_issueRequest\<lparr>IssueLabels := []\<rparr>),
       CreatePost scenario_post],
      Responded 200 []) \<and>
   IssueLabels (scenario_issueRequest\<lparr>IssueLabels := []\<rparr>) = []"
proof -
  let ?p = "scenario_plugin\<lparr>configuration := scenario_config\<lparr>Labels := []\<rparr>\<rparr>"
  have reach: "header_user_id scenario_request \<noteq> [] \<and>
      json_Decode scenario_lib (body scenario_request) = Inr (Some scenario_createRequest) \<and>
      length (strings_Split (ownerAndRepo_of (configuration scenario_plugin)
                (Type scenario_createRequest)) CHR ''/'') = 2 \<and>
      length (strings_Split (ownerAndRepo_of (configuration ?p)
                (Type scenario_createRequest)) CHR ''/'') = 2"
    by (simp add: scenario_defs ownerAndRepo_of_def)
  have "IssuesCreate ''org'' ''repo'' scenario_issueRequest
          \<in> set (fst (handleCreate scenario_lib scenario_plugin scenario_request)) \<and>
        Labels (configuration scenario_plugin) = ''a,b,c''"
    by (simp add: scenario_run) (simp add: scenario_plugin_def scenario_config_def)
  with reach handleCreate_labels
               [of scenario_request scenario_lib scenario_createRequest scenario_plugin]
  have a: "IssueLabels scenario_issueRequest = [''a'', ''b'', ''c'']"
    by blast
  have "IssuesCreate ''org'' ''repo'' (scenario_issueRequest\<lparr>IssueLabels := []\<rparr>)
          \<in> set (fst (handleCreate scenario_lib ?p scenario_request)) \<and>
        Labels (configuration ?p) = []"
    by (simp add: scenario_run_no_labels)
  with reach handleCreate_labels [of scenario_request scenario_lib scenario_createRequest ?p]
  have b: "IssueLabels (scenario_issueRequest\<lparr>IssueLabels := []\<rparr>) = []"
    by blast
  from a b show ?thesis
    by (simp add: scenario_run scenario_run_no_labels) (simp add: scenario_plugin_def scenario_config_def)
qed

text \<open>
  C7. When the source post was read with success, the confirmation post the run creates
  is rooted at the source post itself if that one has no parent, and at the parent of the
  source post otherwise.
\<close>

theorem handleCreate_thread_root:
  assumes "json_Decode L (body r) = Inr (Some cr)"
    and "api_GetPost (API p) (PostID cr) = Inr docPost"
    and "CreatePost post \<in> set (fst (handleCreate L p r))"
  shows "(RootId docPost = [] \<longrightarrow> RootId post = Id docPost) \<and>
         (RootId docPost \<noteq> [] \<longrightarrow> RootId post = RootId docPost)"
  using assms
  by (cases rule: handleCreate_cases[of r L p]) (auto simp: rootID_of_def)

theorem handleCreate_thread_root_witness:
  "CreatePost scenario_post \<in> set (fst (handleCreate scenario_lib scenario_plugin scenario_request)) \<and>
   RootId scenario_docPost = [] \<and>
   RootId scenario_post = Id scenario_docPost \<and>
   fst (handleCreate scenario_lib scenario_plugin (scenario_request\<lparr>body := reply_body\<rparr>)) ! 5 =
     CreatePost (scenario_post\<lparr>Message := Sprintf message_format
       [''https://chat.example.com/_redirect/pl/M7'', ''https://github.com/org/repo/issues/1'']\<rparr>) \<and>
   RootId scenario_reply = ''M1'' \<and>
   RootId (scenario_post\<lparr>Message := Sprintf message_format
       [''https://chat.example.com/_redirect/pl/M7'', ''https://github.com/org/repo/issues/1'']\<rparr>)
     = RootId scenario_reply"
proof -
  let ?post7 = "scenario_post\<lparr>Message := Sprintf message_format
       [''https://chat.example.com/_redirect/pl/M7'', ''https://github.com/org/repo/issues/1'']\<rparr>"
  have 1: "json_Decode scenario_lib (body scenario_request) = Inr (Some scenario_createRequest) \<and>
      api_GetPost (API scenario_plugin) (PostID scenario_createRequest) = Inr scenario_docPost \<and>
      RootId scenario_docPost = []"
    by (simp add: scenario_defs)
  have 2: "CreatePost scenario_post
             \<in> set (fst (handleCreate scenario_lib scenario_plugin scenario_request))"
    by (simp add: scenario_run)
  from 1 2 handleCreate_thread_root
             [of scenario_lib scenario_request scenario_createRequest scenario_plugin
                 scenario_docPost scenario_post]
  have a: "RootId scenario_post = Id scenario_docPost"
    by blast
  have 3: "json_Decode scenario_lib (body (scenario_request\<lparr>body := reply_body\<rparr>))
             = Inr (Some (scenario_createRequest\<lparr>PostID := ''M7''\<rparr>)) \<and>
      api_GetPost (API scenario_plugin) (PostID (scenario_createRequest\<lparr>PostID := ''M7''\<rparr>))
        = Inr scenario_reply \<and>
      RootId scenario_reply \<noteq> [] \<and> RootId scenario_reply = ''M1''"
    by (simp add: scenario_defs)
  have 4: "CreatePost ?post7
             \<in> set (fst (handleCreate scenario_lib scenario_plugin
                           (scenario_request\<lparr>body := reply_body\<rparr>)))"
    by (simp add: scenario_run_reply)
  from 3 4 handleCreate_thread_root
             [of scenario_lib "scenario_request\<lparr>body := reply_body\<rparr>"
                 "scenario_createRequest\<lparr>PostID := ''M7''\<rparr>" scenario_plugin
                 scenario_reply ?post7]
  have b: "RootId ?post7 = RootId scenario_reply"
    by blast
  from 1 2 3 a b show ?thesis
    by (simp add: scenario_run_reply)
qed

text \<open>
  C8. For an authenticated request: a body the decoder rejects is logged with the
  decoder's error and answered 500, and nothing else is called. A body the decoder
  accepts takes the run on to the configuration read, and no decode error is logged.
  When every later step succeeds (the decoded request is not nil, its repository string
  splits in two, both lookups return, the site URL is set and parses, the tracker accepts
  the issue request and the host accepts the confirmation post) the run is the six calls
  in their order and the answer is 200 with an empty body. Conversely the answer is 200
  only with an empty body and only after all of these steps succeeded.
\<close>

theorem handleCreate_decode:
  assumes "header_user_id r \<noteq> []"
  shows "(\<forall>err. json_Decode L (body r) = Inl err \<longrightarrow>
            handleCreate L p r =
              ([LogError (''Unable to decode JSON err='' @ err)], Responded 500 [])) \<and>
         (\<forall>d. json_Decode L (body r) = Inr d \<longrightarrow>
            take 1 (fst (handleCreate L p r)) = [GetConfiguration] \<and>
            (\<forall>m. LogError (''Unable to decode JSON err='' @ m) \<notin> set (fst (handleCreate L p r)))) \<and>
         (\<forall>cr s user docPost site u link q issue post created.
            json_Decode L (body r) = Inr (Some cr) \<and>
            ownerAndRepo_of (configuration p) (Type cr) = s \<and>
            length (strings_Split s CHR ''/'') = 2 \<and>
            api_GetUser (API p) (header_user_id r) = Inr user \<and>
            api_GetPost (API p) (PostID cr) = Inr docPost \<and>
            SiteURL (ServiceSettings (api_GetConfig (API p))) = Some site \<and>
            url_Parse L site = Inr u \<and>
            link = url_String L (u\<lparr>Path := path_Join L [Path u, ''_redirect'', ''pl'', Id docPost]\<rparr>) \<and>
            q = \<lparr>IssueTitle = ''Request for Documentation: '' @ Title cr,
                  IssueBody = Sprintf body_format [Username user, site, Body cr, link],
                  IssueLabels = labels_of (configuration p)\<rparr> \<and>
            github_Issues_Create p (strings_Split s CHR ''/'' ! 0) (strings_Split s CHR ''/'' ! 1) q
              = Inr issue \<and>
            post = \<lparr>Id = [], UserId = header_user_id r, ChannelId = ChannelId docPost,
                     RootId = rootID_of docPost,
                     Message = Sprintf message_format [link, GetHTMLURL issue]\<rparr> \<and>
            api_CreatePost (API p) post = Inr created
            \<longrightarrow> handleCreate L p r =
                  ([GetConfiguration, GetUser (header_user_id r), GetConfig, GetPost (PostID cr),
                    IssuesCreate (strings_Split s CHR ''/'' ! 0) (strings_Split s CHR ''/'' ! 1) q,
                    CreatePost post],
                   Responded 200 [])) \<and>
         (\<forall>b. snd (handleCreate L p r) = Responded 200 b \<longrightarrow>
            b = [] \<and>
            (\<exists>cr s user docPost site u link q issue post created.
               json_Decode L (body r) = Inr (Some cr) \<and>
               ownerAndRepo_of (configuration p) (Type cr) = s \<and>
               length (strings_Split s CHR ''/'') = 2 \<and>
               api_GetUser (API p) (header_user_id r) = Inr user \<and>
               api_GetPost (API p) (PostID cr) = Inr docPost \<and>
               SiteURL (ServiceSettings (api_GetConfig (API p))) = Some site \<and>
               url_Parse L site = Inr u \<and>
               link = url_String L (u\<lparr>Path := path_Join L [Path u, ''_redirect'', ''pl'', Id docPost]\<rparr>) \<and>
               q = \<lparr>IssueTitle = ''Request for Documentation: '' @ Title cr,
                     IssueBody = Sprintf body_format [Username user, site, Body cr, link],
                     IssueLabels = labels_of (configuration p)\<rparr> \<and>
               github_Issues_Create p (strings_Split s CHR ''/'' ! 0) (strings_Split s CHR ''/'' ! 1) q
                 = Inr issue \<and>
               post = \<lparr>Id = [], UserId = header_user_id r, ChannelId = ChannelId docPost,
                        RootId = rootID_of docPost,
                        Message = Sprintf message_format [link, GetHTMLURL issue]\<rparr> \<and>
               api_CreatePost (API p) post = Inr created \<and>
               fst (handleCreate L p r) =
                 [GetConfiguration, GetUser (header_user_id r), GetConfig, GetPost (PostID cr),
                  IssuesCreate (strings_Split s CHR ''/'' ! 0) (strings_Split s CHR ''/'' ! 1) q,
                  CreatePost post]))"
proof (intro conjI allI impI; (elim conjE)?)
  fix err assume "json_Decode L (body r) = Inl err"
  with assms show "handleCreate L p r =
      ([LogError (''Unable to decode JSON err='' @ err)], Responded 500 [])"
    by (simp add: handleCreate_def)
next
  fix d assume "json_Decode L (body r) = Inr d"
  with assms show "take 1 (fst (handleCreate L p r)) = [GetConfiguration]"
    by (cases rule: handleCreate_cases[of r L p]) auto
next
  fix d m assume "json_Decode L (body r) = Inr d"
  with assms show "LogError (''Unable to decode JSON err='' @ m) \<notin> set (fst (handleCreate L p r))"
    by (cases rule: handleCreate_cases[of r L p]) auto
next
  fix cr s user docPost site u link q issue post created
  assume h: "json_Decode L (body r) = Inr (Some cr)"
    "ownerAndRepo_of (configuration p) (Type cr) = s"
    "length (strings_Split s CHR ''/'') = 2"
    "api_GetUser (API p) (header_user_id r) = Inr user"
    "api_GetPost (API p) (PostID cr) = Inr docPost"
    "SiteURL (ServiceSettings (api_GetConfig (API p))) = Some site"
    "url_Parse L site = Inr u"
    "link = url_String L (u\<lparr>Path := path_Join L [Path u, ''_redirect'', ''pl'', Id docPost]\<rparr>)"
    "q = \<lparr>IssueTitle = ''Request for Documentation: '' @ Title cr,
          IssueBody = Sprintf body_format [Username user, site, Body cr, link],
          IssueLabels = labels_of (configuration p)\<rparr>"
    "github_Issues_Create p (strings_Split s CHR ''/'' ! 0) (strings_Split s CHR ''/'' ! 1) q
       = Inr issue"
    "post = \<lparr>Id = [], UserId = header_user_id r, ChannelId = ChannelId docPost,
             RootId = rootID_of docPost,
             Message = Sprintf message_format [link, GetHTMLURL issue]\<rparr>"
    "api_CreatePost (API p) post = Inr created"
  from h(2,3) have ne: "s \<noteq> []"
    by auto
  from assms h ne show "handleCreate L p r =
      ([GetConfiguration, GetUser (header_user_id r), GetConfig, GetPost (PostID cr),
        IssuesCreate (strings_Split s CHR ''/'' ! 0) (strings_Split s CHR ''/'' ! 1) q,
        CreatePost post], Responded 200 [])"
    by (simp add: handleCreate_def Let_def)
next
  fix b assume "snd (handleCreate L p r) = Responded 200 b"
  then show "b = []"
    by (cases rule: handleCreate_cases[of r L p]) auto
next
  fix b assume ok: "snd (handleCreate L p r) = Responded 200 b"
  show "\<exists>cr s user docPost site u link q issue post created.
               json_Decode L (body r) = Inr (Some cr) \<and>
               ownerAndRepo_of (configuration p) (Type cr) = s \<and>
               length (strings_Split s CHR ''/'') = 2 \<and>
               api_GetUser (API p) (header_user_id r) = Inr user \<and>
               api_GetPost (API p) (PostID cr) = Inr docPost \<and>
               SiteURL (ServiceSettings (api_GetConfig (API p))) = Some site \<and>
               url_Parse L site = Inr u \<and>
               link = url_String L (u\<lparr>Path := path_Join L [Path u, ''_redirect'', ''pl'', Id docPost]\<rparr>) \<and>
               q = \<lparr>IssueTitle = ''Request for Documentation: '' @ Title cr,
                     IssueBody = Sprintf body_format [Username user, site, Body cr, link],
                     IssueLabels = labels_of (configuration p)\<rparr> \<and>
               github_Issues_Create p (strings_Split s CHR ''/'' ! 0) (strings_Split s CHR ''/'' ! 1) q
                 = Inr issue \<and>
               post = \<lparr>Id = [], UserId = header_user_id r, ChannelId = ChannelId docPost,
                        RootId = rootID_of docPost,
                        Message = Sprintf message_format [link, GetHTMLURL issue]\<rparr> \<and>
               api_CreatePost (API p) post = Inr created \<and>
               fst (handleCreate L p r) =
                 [GetConfiguration, GetUser (header_user_id r), GetConfig, GetPost (PostID cr),
                  IssuesCreate (strings_Split s CHR ''/'' ! 0) (strings_Split s CHR ''/'' ! 1) q,
                  CreatePost post]"
  proof (cases rule: handleCreate_cases[of r L p])
    case (Created cr s user docPost site u link q issue post created)
    then show ?thesis
      by (intro exI[of _ cr] exI[of _ s] exI[of _ user] exI[of _ docPost] exI[of _ site]
            exI[of _ u] exI[of _ link] exI[of _ q] exI[of _ issue] exI[of _ post]
            exI[of _ created]) simp
  qed (use ok assms in simp_all)
qed

theorem handleCreate_decode_witness:
  "handleCreate scenario_lib scenario_plugin (scenario_request\<lparr>body := ''{''\<rparr>) =
     ([LogError ''Unable to decode JSON err=unexpected EOF''], Responded 500 []) \<and>
   take 1 (fst (handleCreate scenario_lib scenario_plugin (scenario_request\<lparr>body := ''null''\<rparr>)))
     = [GetConfiguration] \<and>
   handleCreate scenario_lib scenario_plugin scenario_request =
     ([GetConfiguration, GetUser ''U1'', GetConfig, GetPost ''M1'',
       IssuesCreate ''org'' ''repo'' scenario_issueRequest, CreatePost scenario_post],
      Responded 200 [])"
proof -
  let ?bad = "scenario_request\<lparr>body := ''{''\<rparr>"
  let ?null = "scenario_request\<lparr>body := ''null''\<rparr>"
  have "header_user_id ?bad \<noteq> [] \<and> json_Decode scenario_lib (body ?bad) = Inl ''unexpected EOF''"
    by (simp add: scenario_defs)
  with handleCreate_decode[of ?bad scenario_lib scenario_plugin]
  have a: "handleCreate scenario_lib scenario_plugin ?bad =
     ([LogError (''Unable to decode JSON err='' @ ''unexpected EOF'')], Responded 500 [])"
    by blast
  have "header_user_id ?null \<noteq> [] \<and> json_Decode scenario_lib (body ?null) = Inr None"
    by (simp add: scenario_defs)
  with handleCreate_decode[of ?null scenario_lib scenario_plugin]
  have b: "take 1 (fst (handleCreate scenario_lib scenario_plugin ?null)) = [GetConfiguration]"
    by blast
  have h0: "header_user_id scenario_request \<noteq> []"
    by (simp add: scenario_request_def)
  have h: "json_Decode scenario_lib (body scenario_request) = Inr (Some scenario_createRequest) \<and>
      ownerAndRepo_of (configuration scenario_plugin) (Type scenario_createRequest) = ''org/repo'' \<and>
      length (strings_Split ''org/repo'' CHR ''/'') = 2 \<and>
      api_GetUser (API scenario_plugin) (header_user_id scenario_request) = Inr scenario_user \<and>
      api_GetPost (API scenario_plugin) (PostID scenario_createRequest) = Inr scenario_docPost \<and>
      SiteURL (ServiceSettings (api_GetConfig (API scenario_plugin)))
        = Some ''https://chat.example.com'' \<and>
      url_Parse scenario_lib ''https://chat.example.com'' = Inr scenario_url \<and>
      ''https://chat.example.com/_redirect/pl/M1'' =
        url_String scenario_lib (scenario_url\<lparr>Path := path_Join scenario_lib
          [Path scenario_url, ''_redirect'', ''pl'', Id scenario_docPost]\<rparr>) \<and>
      scenario_issueRequest =
        \<lparr>IssueTitle = ''Request for Documentation: '' @ Title scenario_createRequest,
         IssueBody = Sprintf body_format
           [Username scenario_user, ''https://chat.example.com'', Body scenario_createRequest,
            ''https://chat.example.com/_redirect/pl/M1''],
         IssueLabels = labels_of (configuration scenario_plugin)\<rparr> \<and>
      github_Issues_Create scenario_plugin (strings_Split ''org/repo'' CHR ''/'' ! 0)
        (strings_Split ''org/repo'' CHR ''/'' ! 1) scenario_issueRequest = Inr scenario_issue \<and>
      scenario_post =
        \<lparr>Id = [], UserId = header_user_id scenario_request, ChannelId = ChannelId scenario_docPost,
         RootId = rootID_of scenario_docPost,
         Message = Sprintf message_format
           [''https://chat.example.com/_redirect/pl/M1'', GetHTMLURL scenario_issue]\<rparr> \<and>
      api_CreatePost (API scenario_plugin) scenario_post = Inr (scenario_post\<lparr>Id := ''M9''\<rparr>)"
    by (simp add: scenario_defs scenario_issueRequest_def scenario_post_def ownerAndRepo_of_def
          labels_of_def rootID_of_def body_format_def message_format_def GetHTMLURL_def)
  have split: "strings_Split ''org/repo'' CHR ''/'' ! 0 = ''org'' \<and>
      strings_Split ''org/repo'' CHR ''/'' ! 1 = ''repo''"
    by simp
  from handleCreate_decode[OF h0, of scenario_lib scenario_plugin] h
  have "handleCreate scenario_lib scenario_plugin scenario_request =
     ([GetConfiguration, GetUser (header_user_id scenario_request), GetConfig,
       GetPost (PostID scenario_createRequest),
       IssuesCreate (strings_Split ''org/repo'' CHR ''/'' ! 0)
         (strings_Split ''org/repo'' CHR ''/'' ! 1) scenario_issueRequest,
       CreatePost scenario_post], Responded 200 [])"
    by blast
  with split have c: "handleCreate scenario_lib scenario_plugin scenario_request =
     ([GetConfiguration, GetUser ''U1'', GetConfig, GetPost ''M1'',
       IssuesCreate ''org'' ''repo'' scenario_issueRequest, CreatePost scenario_post],
      Responded 200 [])"
    by (simp add: scenario_request_def scenario_createRequest_def)
  from a b c show ?thesis by simp
qed

text \<open>
  C9. The body of every issue the run creates is the template of line 140 filled with
  the name of the user read for the caller's id, the site URL of the host configuration,
  the \<^verbatim>\<open>body\<close> field of the payload as it is, between the code fences, and the
  permalink of the source post; the footer is fixed.
\<close>

theorem handleCreate_issue_body:
  assumes "IssuesCreate owner repo q \<in> set (fst (handleCreate L p r))"
  shows "\<exists>cr user docPost site u.
           json_Decode L (body r) = Inr (Some cr) \<and>
           api_GetUser (API p) (header_user_id r) = Inr user \<and>
           api_GetPost (API p) (PostID cr) = Inr docPost \<and>
           SiteURL (ServiceSettings (api_GetConfig (API p))) = Some site \<and>
           url_Parse L site = Inr u \<and>
           IssueBody q =
             ''Mattermost user `'' @ Username user @ ''` from '' @ site @
             '' has requested the following be documented:\<newline>\<newline>```\<newline>'' @ Body cr @
             ''\<newline>```\<newline>\<newline>See the original post [here]('' @
             url_String L (u\<lparr>Path := path_Join L [Path u, ''_redirect'', ''pl'', Id docPost]\<rparr>) @
             '').\<newline>\<newline>_This issue was generated from [Mattermost](https://mattermost.com) using the [Doc Up](https://github.com/jwilander/mattermost-plugin-docup) plugin._''"
  using assms
  by (cases rule: handleCreate_cases[of r L p]) (auto simp: body_format_def)

theorem handleCreate_issue_body_witness:
  "IssuesCreate ''org'' ''repo'' scenario_issueRequest
     \<in> set (fst (handleCreate scenario_lib scenario_plugin scenario_request)) \<and>
   IssueBody scenario_issueRequest =
     ''Mattermost user `'' @ Username scenario_user @ ''` from '' @ ''https://chat.example.com'' @
     '' has requested the following be documented:\<newline>\<newline>```\<newline>'' @ Body scenario_createRequest @
     ''\<newline>```\<newline>\<newline>See the original post [here]('' @
     ''https://chat.example.com/_redirect/pl/M1'' @
     '').\<newline>\<newline>_This issue was generated from [Mattermost](https://mattermost.com) using the [Doc Up](https://github.com/jwilander/mattermost-plugin-docup) plugin._''"
proof -
  have m: "IssuesCreate ''org'' ''repo'' scenario_issueRequest
     \<in> set (fst (handleCreate scenario_lib scenario_plugin scenario_request))"
    by (simp add: scenario_run)
  from handleCreate_issue_body[OF m]
  obtain cr user docPost site u where
    f: "json_Decode scenario_lib (body scenario_request) = Inr (Some cr)"
       "api_GetUser (API scenario_plugin) (header_user_id scenario_request) = Inr user"
       "api_GetPost (API scenario_plugin) (PostID cr) = Inr docPost"
       "SiteURL (ServiceSettings (api_GetConfig (API scenario_plugin))) = Some site"
       "url_Parse scenario_lib site = Inr u"
       "IssueBody scenario_issueRequest =
             ''Mattermost user `'' @ Username user @ ''` from '' @ site @
             '' has requested the following be documented:\<newline>\<newline>```\<newline>'' @ Body cr @
             ''\<newline>```\<newline>\<newline>See the original post [here]('' @
             url_String scenario_lib
               (u\<lparr>Path := path_Join scenario_lib [Path u, ''_redirect'', ''pl'', Id docPost]\<rparr>) @
             '').\<newline>\<newline>_This issue was generated from [Mattermost](https://mattermost.com) using the [Doc Up](https://github.com/jwilander/mattermost-plugin-docup) plugin._''"
    by blast
  from f(1) have cr: "cr = scenario_createRequest"
    by (simp add: scenario_defs)
  from f(2) have user: "user = scenario_user"
    by (simp add: scenario_request_def scenario_plugin_def scenario_API_def)
  from f(3) cr have docPost: "docPost = scenario_docPost"
    by (simp add: scenario_createRequest_def scenario_plugin_def scenario_API_def)
  from f(4) have site: "site = ''https://chat.example.com''"
    by (simp add: scenario_plugin_def scenario_API_def)
  from f(5) site have u: "u = scenario_url"
    by (simp add: scenario_lib_def)
  have link: "url_String scenario_lib
      (scenario_url\<lparr>Path := path_Join scenario_lib
         [Path scenario_url, ''_redirect'', ''pl'', Id scenario_docPost]\<rparr>)
      = ''https://chat.example.com/_redirect/pl/M1''"
    by (simp add: scenario_lib_def scenario_url_def scenario_docPost_def)
  from f(6) show ?thesis
    unfolding cr user docPost site u link using m by blast
qed

text \<open>
  C10. The permalink step answers no request with an error status. For a request that
  reaches it (both lookups succeeded), a nil \<^verbatim>\<open>SiteURL\<close> and a site URL that does not
  parse both end the run in a nil dereference, with nothing logged and nothing written;
  otherwise the run goes on to the issue creation.
\<close>

theorem handleCreate_permalink_panics:
  assumes "header_user_id r \<noteq> []"
    and "json_Decode L (body r) = Inr (Some cr)"
    and "length (strings_Split (ownerAndRepo_of (configuration p) (Type cr)) CHR ''/'') = 2"
    and "api_GetUser (API p) (header_user_id r) = Inr user"
    and "api_GetPost (API p) (PostID cr) = Inr docPost"
  shows "(SiteURL (ServiceSettings (api_GetConfig (API p))) = None \<longrightarrow>
            handleCreate L p r =
              ([GetConfiguration, GetUser (header_user_id r), GetConfig, GetPost (PostID cr)], Panic)) \<and>
         (\<forall>site err. SiteURL (ServiceSettings (api_GetConfig (API p))) = Some site \<and>
                     url_Parse L site = Inl err \<longrightarrow>
            handleCreate L p r =
              ([GetConfiguration, GetUser (header_user_id r), GetConfig, GetPost (PostID cr)], Panic)) \<and>
         (\<forall>site u. SiteURL (ServiceSettings (api_GetConfig (API p))) = Some site \<and>
                   url_Parse L site = Inr u \<longrightarrow>
            (\<exists>owner repo q. take 5 (fst (handleCreate L p r)) =
               [GetConfiguration, GetUser (header_user_id r), GetConfig, GetPost (PostID cr),
                IssuesCreate owner repo q]))"
  using assms
  by (cases rule: handleCreate_cases[of r L p]) (auto simp: strings_Split_not_Nil)

theorem handleCreate_permalink_panics_witness:
  "handleCreate scenario_lib
     (scenario_plugin\<lparr>API := scenario_API\<lparr>api_GetConfig :=
         \<lparr>ServiceSettings = \<lparr>SiteURL = None\<rparr>\<rparr>\<rparr>\<rparr>)
     scenario_request =
     ([GetConfiguration, GetUser ''U1'', GetConfig, GetPost ''M1''], Panic) \<and>
   handleCreate scenario_lib
     (scenario_plugin\<lparr>API := scenario_API\<lparr>api_GetConfig :=
         \<lparr>ServiceSettings = \<lparr>SiteURL = Some ''://chat''\<rparr>\<rparr>\<rparr>\<rparr>)
     scenario_request =
     ([GetConfiguration, GetUser ''U1'', GetConfig, GetPost ''M1''], Panic) \<and>
   take 5 (fst (handleCreate scenario_lib scenario_plugin scenario_request)) =
     [GetConfiguration, GetUser ''U1'', GetConfig, GetPost ''M1'',
      IssuesCreate ''org'' ''repo'' scenario_issueRequest]"
proof -
  let ?unset = "scenario_plugin\<lparr>API := scenario_API\<lparr>api_GetConfig :=
         \<lparr>ServiceSettings = \<lparr>SiteURL = None\<rparr>\<rparr>\<rparr>\<rparr>"
  let ?bad = "scenario_plugin\<lparr>API := scenario_API\<lparr>api_GetConfig :=
         \<lparr>ServiceSettings = \<lparr>SiteURL = Some ''://chat''\<rparr>\<rparr>\<rparr>\<rparr>"
  have a: "handleCreate scenario_lib ?unset scenario_request =
     ([GetConfiguration, GetUser (header_user_id scenario_request), GetConfig,
       GetPost (PostID scenario_createRequest)], Panic)"
    using handleCreate_permalink_panics
            [of scenario_request scenario_lib scenario_createRequest ?unset
                scenario_user scenario_docPost]
    by (simp add: scenario_defs ownerAndRepo_of_def)
  have b: "handleCreate scenario_lib ?bad scenario_request =
     ([GetConfiguration, GetUser (header_user_id scenario_request), GetConfig,
       GetPost (PostID scenario_createRequest)], Panic)"
    using handleCreate_permalink_panics
            [of scenario_request scenario_lib scenario_createRequest ?bad
                scenario_user scenario_docPost]
    by (simp add: scenario_defs ownerAndRepo_of_def)
  from a b show ?thesis
    by (simp add: scenario_run) (simp add: scenario_request_def scenario_createRequest_def)
qed

end
